theory Spec2Isabelle
  imports Main "HOL-Library.Word"
begin

section \<open>Attributes, panics and the library functions the package calls\<close>

text \<open>
  The package \<^verbatim>\<open>tracing\<close> (src/tracing.go, and a second copy of the same package in
  src/unnamed/part_000) starts OpenTelemetry spans named after a component and an
  operation and attaches one attribute to them. An \<^verbatim>\<open>attribute.KeyValue\<close> is a key
  with a typed value; the package only builds string values (\<^verbatim>\<open>attribute.String\<close>)
  and integer values (\<^verbatim>\<open>attribute.Int\<close>, stored as an int64).
\<close>

datatype attr_value = STRING string | INT64 "64 word"

datatype KeyValue = KeyValue (Key: string) (Value: attr_value)

definition attribute_String :: "string \<Rightarrow> string \<Rightarrow> KeyValue" where
  "attribute_String k v = KeyValue k (STRING v)"

definition attribute_Int :: "string \<Rightarrow> 64 word \<Rightarrow> KeyValue" where
  "attribute_Int k v = KeyValue k (INT64 v)"

text \<open>
  Go panics when a slice is indexed outside its length. Both the read \<^verbatim>\<open>cs[i]\<close> and
  the store \<^verbatim>\<open>cids[i] = ...\<close> are modelled with that branch written out.
\<close>

datatype panic = IndexOutOfRange nat nat

definition slice_get :: "'a list \<Rightarrow> nat \<Rightarrow> panic + 'a" where
  "slice_get xs i =
     (if i < length xs then Inr (xs ! i) else Inl (IndexOutOfRange i (length xs)))"

definition slice_set :: "'a list \<Rightarrow> nat \<Rightarrow> 'a \<Rightarrow> panic + 'a list" where
  "slice_set xs i v =
     (if i < length xs then Inr (xs[i := v]) else Inl (IndexOutOfRange i (length xs)))"

text \<open>\<^verbatim>\<open>make([]string, n)\<close>: a slice of \<open>n\<close> empty strings.\<close>

definition make_strings :: "nat \<Rightarrow> string list" where
  "make_strings n = replicate n []"

text \<open>
  \<^verbatim>\<open>strings.Join(elems, sep)\<close>: nothing for no element, the element itself for one,
  and otherwise the elements with \<open>sep\<close> between each two neighbours.
\<close>

fun strings_Join :: "string list \<Rightarrow> string \<Rightarrow> string" where
  "strings_Join [] sep = []"
| "strings_Join [s] sep = s"
| "strings_Join (s # t # ss) sep = s @ sep @ strings_Join (t # ss) sep"

text \<open>The verb \<^verbatim>\<open>%d\<close> of package fmt on an int: decimal digits, with a sign when negative.\<close>

definition digit_char :: "nat \<Rightarrow> char" where
  "digit_char d = ''0123456789'' ! d"

fun decimal :: "nat \<Rightarrow> string" where
  "decimal n = (if n < 10 then [digit_char n] else decimal (n div 10) @ [digit_char (n mod 10)])"

declare decimal.simps [simp del]

definition fmt_d :: "int \<Rightarrow> string" where
  "fmt_d n = (if n < 0 then CHR ''-'' # decimal (nat (- n)) else decimal (nat n))"

text \<open>
  The two format calls of the package. \<^verbatim>\<open>fmt.Sprintf("%s.%s", a, b)\<close> copies both
  strings around a full stop; \<^verbatim>\<open>fmt.Sprintf(" and %d more", n)\<close> puts the decimal
  form of \<open>n\<close> between the two literal parts.
\<close>

definition Sprintf_s_dot_s :: "string \<Rightarrow> string \<Rightarrow> string" where
  "Sprintf_s_dot_s a b = a @ ''.'' @ b"

definition Sprintf_and_d_more :: "int \<Rightarrow> string" where
  "Sprintf_and_d_more n = '' and '' @ fmt_d n @ '' more''"

section \<open>The tracing backend\<close>

text \<open>
  Modelled from the spec: the tracing backend (\<^verbatim>\<open>otel.Tracer("")\<close> and the span it
  returns) is an external collaborator, a capability with \<^verbatim>\<open>Start\<close>,
  \<^verbatim>\<open>IsRecording\<close> and \<^verbatim>\<open>SetAttributes\<close>. It is modelled as the stub the spec
  asks for: a span remembers the name and the start options \<^verbatim>\<open>Start\<close> received, whether
  the backend decided to record it, and the arguments of every \<^verbatim>\<open>SetAttributes\<close> call
  in order. A tracer is the backend's choice of the derived context and of which spans it
  records.
\<close>

datatype SpanStartOption = WithAttributes "KeyValue list" | OtherOption string

record span =
  span_name :: string
  start_options :: "SpanStartOption list"
  recording :: bool
  set_attributes_calls :: "KeyValue list list"

record 'ctx tracer =
  derive_ctx :: "'ctx \<Rightarrow> string \<Rightarrow> 'ctx"
  sampler :: "'ctx \<Rightarrow> string \<Rightarrow> SpanStartOption list \<Rightarrow> bool"

definition tracer_Start ::
  "'ctx tracer \<Rightarrow> 'ctx \<Rightarrow> string \<Rightarrow> SpanStartOption list \<Rightarrow> 'ctx \<times> span" where
  "tracer_Start T ctx name opts =
     (derive_ctx T ctx name,
      \<lparr>span_name = name, start_options = opts, recording = sampler T ctx name opts,
       set_attributes_calls = []\<rparr>)"

definition span_IsRecording :: "span \<Rightarrow> bool" where
  "span_IsRecording sp = recording sp"

definition span_SetAttributes :: "span \<Rightarrow> KeyValue list \<Rightarrow> span" where
  "span_SetAttributes sp kvs = sp\<lparr>set_attributes_calls := set_attributes_calls sp @ [kvs]\<rparr>"

text \<open>Every attribute the backend has been handed for a span, at its start or later.\<close>

fun option_attributes :: "SpanStartOption \<Rightarrow> KeyValue list" where
  "option_attributes (WithAttributes kvs) = kvs"
| "option_attributes (OtherOption _) = []"

definition attributes_received :: "span \<Rightarrow> KeyValue list" where
  "attributes_received sp =
     concat (map option_attributes (start_options sp)) @ concat (set_attributes_calls sp)"

text \<open>Two backends for concrete runs: one records every span, one records none.\<close>

definition recording_tracer :: "nat tracer" where
  "recording_tracer = \<lparr>derive_ctx = (\<lambda>ctx name. Suc ctx), sampler = (\<lambda>ctx name opts. True)\<rparr>"


section \<open>The loop that renders the shown items\<close>

text \<open>
  \<^verbatim>\<open>for i := range cids { cids[i] = xs[i].<render>() }\<close> with \<open>n = len(cids)\<close>, read
  once when the loop starts. The same loop is written four times in the sources, over
  \<^verbatim>\<open>cs[i].String()\<close> and over \<^verbatim>\<open>bs[i].Cid().String()\<close>; \<open>render\<close> is that
  expression.
\<close>

function range_fill ::
  "('a \<Rightarrow> string) \<Rightarrow> 'a list \<Rightarrow> nat \<Rightarrow> nat \<Rightarrow> string list \<Rightarrow> panic + string list" where
  "range_fill render xs n i cids =
     (if i < n then
        (case slice_get xs i of
           Inl e \<Rightarrow> Inl e
         | Inr x \<Rightarrow>
             (case slice_set cids i (render x) of
                Inl e \<Rightarrow> Inl e
              | Inr cids' \<Rightarrow> range_fill render xs n (Suc i) cids'))
      else Inr cids)"
  by pat_completeness auto
termination
  by (relation "measure (\<lambda>(render, xs, n, i, cids). n - i)") auto

declare range_fill.simps [simp del]

section \<open>src/tracing.go\<close>

text \<open>
  The identifier types are opaque to the package: a path and a content address
  (\<^verbatim>\<open>cid.Cid\<close>) have a \<^verbatim>\<open>String()\<close> method, a block has a \<^verbatim>\<open>Cid()\<close> method.
  These methods are parameters of the model, \<open>path_String\<close>, \<open>cid_String\<close> and
  \<open>block_Cid\<close>, as is the tracer \<open>T\<close> that \<^verbatim>\<open>otel.Tracer("")\<close> returns.
\<close>

definition Span ::
  "'ctx tracer \<Rightarrow> 'ctx \<Rightarrow> string \<Rightarrow> string \<Rightarrow> SpanStartOption list \<Rightarrow> 'ctx \<times> span" where
  "Span T ctx componentName spanName opts =
     tracer_Start T ctx (Sprintf_s_dot_s componentName spanName) opts"

definition SpanWithStringAttribute ::
  "'ctx tracer \<Rightarrow> 'ctx \<Rightarrow> string \<Rightarrow> string \<Rightarrow> string \<Rightarrow> string \<Rightarrow> 'ctx \<times> span" where
  "SpanWithStringAttribute T ctx componentName spanName k v =
     Span T ctx componentName spanName [WithAttributes [attribute_String k v]]"

definition SpanWithIntAttribute ::
  "'ctx tracer \<Rightarrow> 'ctx \<Rightarrow> string \<Rightarrow> string \<Rightarrow> string \<Rightarrow> 64 word \<Rightarrow> 'ctx \<times> span" where
  "SpanWithIntAttribute T ctx componentName spanName k v =
     Span T ctx componentName spanName [WithAttributes [attribute_Int k v]]"

definition PathAttribute :: "('p \<Rightarrow> string) \<Rightarrow> 'p \<Rightarrow> KeyValue" where
  "PathAttribute path_String p = attribute_String ''path'' (path_String p)"

definition CidAttribute :: "('c \<Rightarrow> string) \<Rightarrow> 'c \<Rightarrow> KeyValue" where
  "CidAttribute cid_String c = attribute_String ''cid'' (cid_String c)"

definition CidListAttribute :: "('c \<Rightarrow> string) \<Rightarrow> 'c list \<Rightarrow> panic + KeyValue" where
  "CidListAttribute cid_String cs =
     (case
        (if length cs = 0 then Inr ''empty list''
         else
           let mx = (if 3 > length cs then length cs else 3) in
           case range_fill cid_String cs mx 0 (make_strings mx) of
             Inl e \<Rightarrow> Inl e
           | Inr cids \<Rightarrow>
               let val = strings_Join cids '','' in
               Inr (if mx < length cs
                    then val @ Sprintf_and_d_more (int (length cs) - int mx)
                    else val))
      of Inl e \<Rightarrow> Inl e
       | Inr val \<Rightarrow> Inr (attribute_String ''cids'' val))"

definition BlockAttribute :: "('c \<Rightarrow> string) \<Rightarrow> ('b \<Rightarrow> 'c) \<Rightarrow> 'b \<Rightarrow> KeyValue" where
  "BlockAttribute cid_String block_Cid b = attribute_String ''block'' (cid_String (block_Cid b))"

definition BlockListAttribute ::
  "('c \<Rightarrow> string) \<Rightarrow> ('b \<Rightarrow> 'c) \<Rightarrow> 'b list \<Rightarrow> panic + KeyValue" where
  "BlockListAttribute cid_String block_Cid bs =
     (case
        (if length bs = 0 then Inr ''empty list''
         else
           let mx = (if 3 > length bs then length bs else 3) in
           case range_fill (\<lambda>b. cid_String (block_Cid b)) bs mx 0 (make_strings mx) of
             Inl e \<Rightarrow> Inl e
           | Inr cids \<Rightarrow>
               let val = strings_Join cids '','' in
               Inr (if mx < length bs
                    then val @ Sprintf_and_d_more (int (length bs) - int mx)
                    else val))
      of Inl e \<Rightarrow> Inl e
       | Inr val \<Rightarrow> Inr (attribute_String ''blocks'' val))"

definition SpanWithPathAttribute ::
  "'ctx tracer \<Rightarrow> ('p \<Rightarrow> string) \<Rightarrow> 'ctx \<Rightarrow> string \<Rightarrow> string \<Rightarrow> 'p \<Rightarrow> 'ctx \<times> span" where
  "SpanWithPathAttribute T path_String ctx componentName spanName p =
     (case Span T ctx componentName spanName [] of
        (ctx', sp) \<Rightarrow>
          if span_IsRecording sp
          then (ctx', span_SetAttributes sp [PathAttribute path_String p])
          else (ctx', sp))"

definition SpanWithCidAttribute ::
  "'ctx tracer \<Rightarrow> ('c \<Rightarrow> string) \<Rightarrow> 'ctx \<Rightarrow> string \<Rightarrow> string \<Rightarrow> 'c \<Rightarrow> 'ctx \<times> span" where
  "SpanWithCidAttribute T cid_String ctx componentName spanName c =
     (case Span T ctx componentName spanName [] of
        (ctx', sp) \<Rightarrow>
          if span_IsRecording sp
          then (ctx', span_SetAttributes sp [attribute_String ''cid'' (cid_String c)])
          else (ctx', sp))"

definition SpanWithCidListAttribute ::
  "'ctx tracer \<Rightarrow> ('c \<Rightarrow> string) \<Rightarrow> 'ctx \<Rightarrow> string \<Rightarrow> string \<Rightarrow> 'c list
     \<Rightarrow> panic + 'ctx \<times> span" where
  "SpanWithCidListAttribute T cid_String ctx componentName spanName cs =
     (case Span T ctx componentName spanName [] of
        (ctx', sp) \<Rightarrow>
          if span_IsRecording sp
          then (case CidListAttribute cid_String cs of
                  Inl e \<Rightarrow> Inl e
                | Inr kv \<Rightarrow> Inr (ctx', span_SetAttributes sp [kv]))
          else Inr (ctx', sp))"

definition SpanWithBlockAttribute ::
  "'ctx tracer \<Rightarrow> ('c \<Rightarrow> string) \<Rightarrow> ('b \<Rightarrow> 'c) \<Rightarrow> 'ctx \<Rightarrow> string \<Rightarrow> string \<Rightarrow> 'b
     \<Rightarrow> 'ctx \<times> span" where
  "SpanWithBlockAttribute T cid_String block_Cid ctx componentName spanName b =
     (case Span T ctx componentName spanName [] of
        (ctx', sp) \<Rightarrow>
          if span_IsRecording sp
          then (ctx', span_SetAttributes sp [BlockAttribute cid_String block_Cid b])
          else (ctx', sp))"

definition SpanWithBlockListAttribute ::
  "'ctx tracer \<Rightarrow> ('c \<Rightarrow> string) \<Rightarrow> ('b \<Rightarrow> 'c) \<Rightarrow> 'ctx \<Rightarrow> string \<Rightarrow> string \<Rightarrow> 'b list
     \<Rightarrow> panic + 'ctx \<times> span" where
  "SpanWithBlockListAttribute T cid_String block_Cid ctx componentName spanName bs =
     (case Span T ctx componentName spanName [] of
        (ctx', sp) \<Rightarrow>
          if span_IsRecording sp
          then (case BlockListAttribute cid_String block_Cid bs of
                  Inl e \<Rightarrow> Inl e
                | Inr kv \<Rightarrow> Inr (ctx', span_SetAttributes sp [kv]))
          else Inr (ctx', sp))"

section \<open>src/unnamed/part_000\<close>

text \<open>
  The second copy of the package has the same eight span-starting functions and no
  standalone attribute constructors: each function builds its attribute inline. The
  names carry the suffix \<open>_p0\<close>. In \<open>SpanWithBlockListAttribute_p0\<close> the call of
  \<^verbatim>\<open>SetAttributes\<close> stands inside the \<^verbatim>\<open>else\<close> branch of the emptiness test, so
  the value computed for an empty list is dropped.
\<close>

definition Span_p0 ::
  "'ctx tracer \<Rightarrow> 'ctx \<Rightarrow> string \<Rightarrow> string \<Rightarrow> SpanStartOption list \<Rightarrow> 'ctx \<times> span" where
  "Span_p0 T ctx componentName spanName opts =
     tracer_Start T ctx (Sprintf_s_dot_s componentName spanName) opts"

definition SpanWithStringAttribute_p0 ::
  "'ctx tracer \<Rightarrow> 'ctx \<Rightarrow> string \<Rightarrow> string \<Rightarrow> string \<Rightarrow> string \<Rightarrow> 'ctx \<times> span" where
  "SpanWithStringAttribute_p0 T ctx componentName spanName k v =
     Span_p0 T ctx componentName spanName [WithAttributes [attribute_String k v]]"

definition SpanWithIntAttribute_p0 ::
  "'ctx tracer \<Rightarrow> 'ctx \<Rightarrow> string \<Rightarrow> string \<Rightarrow> string \<Rightarrow> 64 word \<Rightarrow> 'ctx \<times> span" where
  "SpanWithIntAttribute_p0 T ctx componentName spanName k v =
     Span_p0 T ctx componentName spanName [WithAttributes [attribute_Int k v]]"

definition SpanWithPathAttribute_p0 ::
  "'ctx tracer \<Rightarrow> ('p \<Rightarrow> string) \<Rightarrow> 'ctx \<Rightarrow> string \<Rightarrow> string \<Rightarrow> 'p \<Rightarrow> 'ctx \<times> span" where
  "SpanWithPathAttribute_p0 T path_String ctx componentName spanName p =
     (case Span_p0 T ctx componentName spanName [] of
        (ctx', sp) \<Rightarrow>
          if span_IsRecording sp
          then (ctx', span_SetAttributes sp [attribute_String ''path'' (path_String p)])
          else (ctx', sp))"

definition SpanWithCidAttribute_p0 ::
  "'ctx tracer \<Rightarrow> ('c \<Rightarrow> string) \<Rightarrow> 'ctx \<Rightarrow> string \<Rightarrow> string \<Rightarrow> 'c \<Rightarrow> 'ctx \<times> span" where
  "SpanWithCidAttribute_p0 T cid_String ctx componentName spanName c =
     (case Span_p0 T ctx componentName spanName [] of
        (ctx', sp) \<Rightarrow>
          if span_IsRecording sp
          then (ctx', span_SetAttributes sp [attribute_String ''cid'' (cid_String c)])
          else (ctx', sp))"

definition SpanWithCidListAttribute_p0 ::
  "'ctx tracer \<Rightarrow> ('c \<Rightarrow> string) \<Rightarrow> 'ctx \<Rightarrow> string \<Rightarrow> string \<Rightarrow> 'c list
     \<Rightarrow> panic + 'ctx \<times> span" where
  "SpanWithCidListAttribute_p0 T cid_String ctx componentName spanName cs =
     (case Span_p0 T ctx componentName spanName [] of
        (ctx', sp) \<Rightarrow>
          if span_IsRecording sp
          then
            (case
               (if length cs = 0 then Inr ''empty list''
                else
                  let mx = (if 3 > length cs then length cs else 3) in
                  case range_fill cid_String cs mx 0 (make_strings mx) of
                    Inl e \<Rightarrow> Inl e
                  | Inr cids \<Rightarrow>
                      let val = strings_Join cids '','' in
                      Inr (if mx < length cs
                           then val @ Sprintf_and_d_more (int (length cs) - int mx)
                           else val))
             of Inl e \<Rightarrow> Inl e
              | Inr val \<Rightarrow> Inr (ctx', span_SetAttributes sp [attribute_String ''cids'' val]))
          else Inr (ctx', sp))"

definition SpanWithBlockAttribute_p0 ::
  "'ctx tracer \<Rightarrow> ('c \<Rightarrow> string) \<Rightarrow> ('b \<Rightarrow> 'c) \<Rightarrow> 'ctx \<Rightarrow> string \<Rightarrow> string \<Rightarrow> 'b
     \<Rightarrow> 'ctx \<times> span" where
  "SpanWithBlockAttribute_p0 T cid_String block_Cid ctx componentName spanName b =
     (case Span_p0 T ctx componentName spanName [] of
        (ctx', sp) \<Rightarrow>
          if span_IsRecording sp
          then (ctx', span_SetAttributes sp
                        [attribute_String ''block'' (cid_String (block_Cid b))])
          else (ctx', sp))"

definition SpanWithBlockListAttribute_p0 ::
  "'ctx tracer \<Rightarrow> ('c \<Rightarrow> string) \<Rightarrow> ('b \<Rightarrow> 'c) \<Rightarrow> 'ctx \<Rightarrow> string \<Rightarrow> string \<Rightarrow> 'b list
     \<Rightarrow> panic + 'ctx \<times> span" where
  "SpanWithBlockListAttribute_p0 T cid_String block_Cid ctx componentName spanName bs =
     (case Span_p0 T ctx componentName spanName [] of
        (ctx', sp) \<Rightarrow>
          if span_IsRecording sp
          then
            (if length bs = 0 then Inr (ctx', sp)
             else
               let mx = (if 3 > length bs then length bs else 3) in
               case range_fill (\<lambda>b. cid_String (block_Cid b)) bs mx 0 (make_strings mx) of
                 Inl e \<Rightarrow> Inl e
               | Inr cids \<Rightarrow>
                   let val = strings_Join cids '','';
                       val' = (if mx < length bs
                               then val @ Sprintf_and_d_more (int (length bs) - int mx)
                               else val)
                   in Inr (ctx', span_SetAttributes sp [attribute_String ''blocks'' val']))
          else Inr (ctx', sp))"

section \<open>What the loop and the list constructors compute\<close>

text \<open>
  The loop invariant: after \<open>i\<close> rounds the first \<open>i\<close> cells of \<open>cids\<close> are
  settled, and the remaining rounds store the rendered items \<open>i, ..., n - 1\<close> of \<open>xs\<close>.
  No round leaves the slices, as long as \<open>n\<close> is at most the length of both.
\<close>

lemma range_fill_inv:
  "i \<le> n \<Longrightarrow> n \<le> length xs \<Longrightarrow> length cids = n \<Longrightarrow>
   range_fill render xs n i cids = Inr (take i cids @ map render (take (n - i) (drop i xs)))"
proof (induction render xs n i cids rule: range_fill.induct)
  case (1 render xs n i cids)
  show ?case
  proof (cases "i < n")
    case False
    with "1.prems" show ?thesis
      by (simp add: range_fill.simps)
  next
    case True
    with "1.prems" have ix: "i < length xs" and ic: "i < length cids" by simp_all
    have get: "slice_get xs i = Inr (xs ! i)"
      using ix by (simp add: slice_get_def)
    have set: "slice_set cids i (render (xs ! i)) = Inr (cids[i := render (xs ! i)])"
      using ic by (simp add: slice_set_def)
    have step: "range_fill render xs n i cids =
                range_fill render xs n (Suc i) (cids[i := render (xs ! i)])"
      using True get set by (subst range_fill.simps) simp
    have ih: "range_fill render xs n (Suc i) (cids[i := render (xs ! i)]) =
              Inr (take (Suc i) (cids[i := render (xs ! i)])
                   @ map render (take (n - Suc i) (drop (Suc i) xs)))"
      using "1.IH" [OF True get set] True "1.prems" by simp
    have left: "take (Suc i) (cids[i := render (xs ! i)]) = take i cids @ [render (xs ! i)]"
      using ic by (simp add: take_Suc_conv_app_nth)
    have right: "take (n - i) (drop i xs) = xs ! i # take (n - Suc i) (drop (Suc i) xs)"
    proof -
      have "drop i xs = xs ! i # drop (Suc i) xs"
        using ix by (simp add: Cons_nth_drop_Suc)
      moreover have "n - i = Suc (n - Suc i)"
        using True by simp
      ultimately show ?thesis by simp
    qed
    show ?thesis
      by (simp add: step ih left right)
  qed
qed

lemma range_fill_make:
  "n \<le> length xs \<Longrightarrow> range_fill render xs n 0 (make_strings n) = Inr (map render (take n xs))"
  using range_fill_inv [of 0 n xs "make_strings n" render]
  by (simp add: make_strings_def)

lemma CidListAttribute_eq:
  "CidListAttribute S cs =
     Inr (attribute_String ''cids''
       (if cs = [] then ''empty list''
        else strings_Join (map S (take 3 cs)) '','' @
             (if 3 < length cs then Sprintf_and_d_more (int (length cs) - 3) else [])))"
proof (cases "cs = []")
  case True
  then show ?thesis by (simp add: CidListAttribute_def)
next
  case False
  show ?thesis
  proof (cases "3 < length cs")
    case True
    then have "range_fill S cs 3 0 (make_strings 3) = Inr (map S (take 3 cs))"
      by (intro range_fill_make) simp
    with True False show ?thesis
      by (simp add: CidListAttribute_def Let_def)
  next
    case small: False
    have "range_fill S cs (length cs) 0 (make_strings (length cs)) = Inr (map S (take (length cs) cs))"
      by (intro range_fill_make) simp
    moreover have "range_fill S cs 3 0 (make_strings 3) = Inr (map S (take 3 cs))" if "length cs = 3"
      using that by (intro range_fill_make) simp
    ultimately show ?thesis using small False
      by (auto simp add: CidListAttribute_def Let_def)
  qed
qed

lemma BlockListAttribute_eq:
  "BlockListAttribute S C bs =
     Inr (attribute_String ''blocks''
       (if bs = [] then ''empty list''
        else strings_Join (map (\<lambda>b. S (C b)) (take 3 bs)) '','' @
             (if 3 < length bs then Sprintf_and_d_more (int (length bs) - 3) else [])))"
proof (cases "bs = []")
  case True
  then show ?thesis by (simp add: BlockListAttribute_def)
next
  case False
  show ?thesis
  proof (cases "3 < length bs")
    case True
    then have "range_fill (\<lambda>b. S (C b)) bs 3 0 (make_strings 3) = Inr (map (\<lambda>b. S (C b)) (take 3 bs))"
      by (intro range_fill_make) simp
    with True False show ?thesis
      by (simp add: BlockListAttribute_def Let_def)
  next
    case small: False
    have "range_fill (\<lambda>b. S (C b)) bs (length bs) 0 (make_strings (length bs))
          = Inr (map (\<lambda>b. S (C b)) (take (length bs) bs))"
      by (intro range_fill_make) simp
    moreover have "range_fill (\<lambda>b. S (C b)) bs 3 0 (make_strings 3)
          = Inr (map (\<lambda>b. S (C b)) (take 3 bs))" if "length bs = 3"
      using that by (intro range_fill_make) simp
    ultimately show ?thesis using small False
      by (auto simp add: BlockListAttribute_def Let_def)
  qed
qed


lemma take_3_nth: "3 \<le> length xs \<Longrightarrow> take 3 xs = [xs ! 0, xs ! 1, xs ! 2]"
proof -
  assume "3 \<le> length xs"
  then obtain a b c r where "xs = a # b # c # r"
    by (auto simp add: numeral_3_eq_3 Suc_le_length_iff)
  then show ?thesis by simp
qed

lemma Sprintf_and_d_more_nat:
  "3 < n \<Longrightarrow> Sprintf_and_d_more (int n - 3) = '' and '' @ decimal (n - 3) @ '' more''"
proof -
  assume "3 < n"
  then have "nat (int n - 3) = n - 3" and "\<not> int n - 3 < 0" by simp_all
  then show ?thesis by (simp add: Sprintf_and_d_more_def fmt_d_def)
qed

lemma SpanWithCidListAttribute_p0_eq:
  "SpanWithCidListAttribute_p0 T S ctx c opn cs = SpanWithCidListAttribute T S ctx c opn cs"
  by (simp add: SpanWithCidListAttribute_p0_def SpanWithCidListAttribute_def
      CidListAttribute_def Span_p0_def Span_def Let_def split: prod.splits sum.splits)

lemma SpanWithBlockListAttribute_p0_eq:
  "bs \<noteq> [] \<Longrightarrow>
   SpanWithBlockListAttribute_p0 T S C ctx c opn bs = SpanWithBlockListAttribute T S C ctx c opn bs"
  by (simp add: SpanWithBlockListAttribute_p0_def SpanWithBlockListAttribute_def
      BlockListAttribute_def Span_p0_def Span_def Let_def split: prod.splits sum.splits)

lemma decimal_value: "foldl (\<lambda>a ch. 10 * a + (of_char ch - 48)) 0 (decimal n) = n"
proof (induction n rule: decimal.induct)
  case (1 n)
  have dig: "of_char (digit_char d) - 48 = d" if "d < 10" for d :: nat
  proof -
    from that have "d \<in> {0,1,2,3,4,5,6,7,8,9}" by auto
    then show ?thesis by (auto simp add: digit_char_def)
  qed
  show ?case
  proof (cases "n < 10")
    case True
    then show ?thesis by (subst decimal.simps) (simp add: dig)
  next
    case False
    with 1 show ?thesis by (subst decimal.simps) (simp add: dig)
  qed
qed

text \<open>
  What the span-starting functions return, in terms of the span the backend started.
  The inline list code of src/unnamed/part_000 is the code of the standalone constructors
  of src/tracing.go, except for the empty block list.
\<close>

lemma Span_result:
  "Span T ctx c opn opts =
     (derive_ctx T ctx (c @ ''.'' @ opn),
      \<lparr>span_name = c @ ''.'' @ opn, start_options = opts,
       recording = sampler T ctx (c @ ''.'' @ opn) opts, set_attributes_calls = []\<rparr>)"
  by (simp add: Span_def tracer_Start_def Sprintf_s_dot_s_def)

lemma Span_p0_result: "Span_p0 T ctx c opn opts = Span T ctx c opn opts"
  by (simp add: Span_p0_def Span_def)

lemma SpanWithCidListAttribute_result:
  "SpanWithCidListAttribute T S ctx c opn cs =
     Inr (fst (Span T ctx c opn []),
          if span_IsRecording (snd (Span T ctx c opn []))
          then span_SetAttributes (snd (Span T ctx c opn []))
                 [attribute_String ''cids''
                   (if cs = [] then ''empty list''
                    else strings_Join (map S (take 3 cs)) '','' @
                         (if 3 < length cs then Sprintf_and_d_more (int (length cs) - 3) else []))]
          else snd (Span T ctx c opn []))"
  by (simp add: SpanWithCidListAttribute_def CidListAttribute_eq split: prod.splits)

lemma SpanWithBlockListAttribute_result:
  "SpanWithBlockListAttribute T S C ctx c opn bs =
     Inr (fst (Span T ctx c opn []),
          if span_IsRecording (snd (Span T ctx c opn []))
          then span_SetAttributes (snd (Span T ctx c opn []))
                 [attribute_String ''blocks''
                   (if bs = [] then ''empty list''
                    else strings_Join (map (\<lambda>b. S (C b)) (take 3 bs)) '','' @
                         (if 3 < length bs then Sprintf_and_d_more (int (length bs) - 3) else []))]
          else snd (Span T ctx c opn []))"
  by (simp add: SpanWithBlockListAttribute_def BlockListAttribute_eq split: prod.splits)

lemma SpanWithBlockListAttribute_p0_empty:
  "SpanWithBlockListAttribute_p0 T S C ctx c opn [] = Inr (Span T ctx c opn [])"
  by (simp add: SpanWithBlockListAttribute_p0_def Span_p0_result split: prod.splits)

lemma empty_list_elsewhere:
  assumes "span_IsRecording (snd (Span T ctx c opn []))"
  shows "CidListAttribute S [] = Inr (KeyValue ''cids'' (STRING ''empty list''))"
    and "BlockListAttribute S C [] = Inr (KeyValue ''blocks'' (STRING ''empty list''))"
    and "map_sum id (\<lambda>r. attributes_received (snd r)) (SpanWithCidListAttribute T S ctx c opn [])
           = Inr [KeyValue ''cids'' (STRING ''empty list'')]"
    and "map_sum id (\<lambda>r. attributes_received (snd r)) (SpanWithCidListAttribute_p0 T S ctx c opn [])
           = Inr [KeyValue ''cids'' (STRING ''empty list'')]"
    and "map_sum id (\<lambda>r. attributes_received (snd r)) (SpanWithBlockListAttribute T S C ctx c opn [])
           = Inr [KeyValue ''blocks'' (STRING ''empty list'')]"
  using assms
  by (simp_all add: CidListAttribute_eq BlockListAttribute_eq SpanWithCidListAttribute_p0_eq
      SpanWithCidListAttribute_result SpanWithBlockListAttribute_result attribute_String_def
      attributes_received_def span_SetAttributes_def Span_result)

section \<open>The claims\<close>




text \<open>
  C2. On a recording span, \<open>SpanWithBlockListAttribute_p0\<close> with an empty list returns
  the span as the backend started it: no \<^verbatim>\<open>SetAttributes\<close> call has been made, so the
  value \<open>''empty list''\<close> is not attached. Lemma \<open>empty_list_elsewhere\<close> shows that the
  constructors and the three other list functions do attach it.
\<close>

theorem SpanWithBlockListAttribute_p0_drops_empty_list:
  "SpanWithBlockListAttribute_p0 recording_tracer (\<lambda>c. c) fst 0 ''bitswap'' ''GetBlocks''
     ([] :: (string \<times> string) list) =
   Inr (1, \<lparr>span_name = ''bitswap.GetBlocks'', start_options = [], recording = True,
            set_attributes_calls = []\<rparr>)"
  by (simp add: SpanWithBlockListAttribute_p0_def Span_p0_def tracer_Start_def
      Sprintf_s_dot_s_def recording_tracer_def span_IsRecording_def)

text \<open>
  C3. For a list of more than three items the summary is the canonical strings of the
  first three items, joined by commas with nothing around them, followed by
  \<open>'' and N more''\<close> with \<open>N\<close> the decimal form of the length minus three. For a block
  list the canonical string of an item is that of the block's content address.
\<close>

theorem long_list_summary:
  assumes "3 < length cs" and "3 < length bs"
  shows "CidListAttribute S cs =
           Inr (KeyValue ''cids'' (STRING
             (S (cs ! 0) @ '','' @ S (cs ! 1) @ '','' @ S (cs ! 2)
              @ '' and '' @ decimal (length cs - 3) @ '' more'')))
       \<and> BlockListAttribute S C bs =
           Inr (KeyValue ''blocks'' (STRING
             (S (C (bs ! 0)) @ '','' @ S (C (bs ! 1)) @ '','' @ S (C (bs ! 2))
              @ '' and '' @ decimal (length bs - 3) @ '' more'')))"
proof
  from assms(1) have "cs \<noteq> []" and "take 3 cs = [cs ! 0, cs ! 1, cs ! 2]"
    by (auto simp add: take_3_nth)
  with assms(1) show "CidListAttribute S cs =
           Inr (KeyValue ''cids'' (STRING
             (S (cs ! 0) @ '','' @ S (cs ! 1) @ '','' @ S (cs ! 2)
              @ '' and '' @ decimal (length cs - 3) @ '' more'')))"
    by (simp add: CidListAttribute_eq Sprintf_and_d_more_nat attribute_String_def)
next
  from assms(2) have "bs \<noteq> []" and "take 3 bs = [bs ! 0, bs ! 1, bs ! 2]"
    by (auto simp add: take_3_nth)
  with assms(2) show "BlockListAttribute S C bs =
           Inr (KeyValue ''blocks'' (STRING
             (S (C (bs ! 0)) @ '','' @ S (C (bs ! 1)) @ '','' @ S (C (bs ! 2))
              @ '' and '' @ decimal (length bs - 3) @ '' more'')))"
    by (simp add: BlockListAttribute_eq Sprintf_and_d_more_nat attribute_String_def)
qed

theorem long_list_summary_witness:
  "3 < length [''QmA'', ''QmB'', ''QmC'', ''QmD'']
   \<and> 3 < length (replicate 100 (''QmZ'', ''data''))
   \<and> CidListAttribute (\<lambda>c. c) [''QmA'', ''QmB'', ''QmC'', ''QmD''] =
       Inr (KeyValue ''cids'' (STRING ''QmA,QmB,QmC and 1 more''))
   \<and> BlockListAttribute (\<lambda>c. c) fst (replicate 100 (''QmZ'', ''data'')) =
       Inr (KeyValue ''blocks'' (STRING ''QmZ,QmZ,QmZ and 97 more''))"
  using long_list_summary [of "[''QmA'', ''QmB'', ''QmC'', ''QmD'']"
      "replicate 100 (''QmZ'', ''data'')" "\<lambda>c. c" fst]
  by (simp add: decimal.simps digit_char_def)

text \<open>
  C4. Every span-starting function of both files makes one call of the backend's
  \<^verbatim>\<open>Start\<close>, and the name it passes is \<open>c @ ''.'' @ opn\<close>: the component name, one full
  stop, the operation name, both unchanged. What each function returns is the result of
  that call, with at most one \<^verbatim>\<open>SetAttributes\<close> call applied to the span; the backend
  keeps the name it was given.
\<close>

theorem span_name_is_component_dot_operation:
  "Span T ctx c opn opts = tracer_Start T ctx (c @ ''.'' @ opn) opts
   \<and> SpanWithStringAttribute T ctx c opn k v
       = tracer_Start T ctx (c @ ''.'' @ opn) [WithAttributes [attribute_String k v]]
   \<and> SpanWithIntAttribute T ctx c opn k iv
       = tracer_Start T ctx (c @ ''.'' @ opn) [WithAttributes [attribute_Int k iv]]
   \<and> SpanWithPathAttribute T P ctx c opn p
       = (case tracer_Start T ctx (c @ ''.'' @ opn) [] of
            (ctx', sp) \<Rightarrow>
              if span_IsRecording sp
              then (ctx', span_SetAttributes sp [PathAttribute P p]) else (ctx', sp))
   \<and> SpanWithCidAttribute T S ctx c opn x
       = (case tracer_Start T ctx (c @ ''.'' @ opn) [] of
            (ctx', sp) \<Rightarrow>
              if span_IsRecording sp
              then (ctx', span_SetAttributes sp [CidAttribute S x]) else (ctx', sp))
   \<and> SpanWithCidListAttribute T S ctx c opn cs
       = (case tracer_Start T ctx (c @ ''.'' @ opn) [] of
            (ctx', sp) \<Rightarrow>
              if span_IsRecording sp
              then map_sum id (\<lambda>kv. (ctx', span_SetAttributes sp [kv])) (CidListAttribute S cs)
              else Inr (ctx', sp))
   \<and> SpanWithBlockAttribute T S C ctx c opn b
       = (case tracer_Start T ctx (c @ ''.'' @ opn) [] of
            (ctx', sp) \<Rightarrow>
              if span_IsRecording sp
              then (ctx', span_SetAttributes sp [BlockAttribute S C b]) else (ctx', sp))
   \<and> SpanWithBlockListAttribute T S C ctx c opn bs
       = (case tracer_Start T ctx (c @ ''.'' @ opn) [] of
            (ctx', sp) \<Rightarrow>
              if span_IsRecording sp
              then map_sum id (\<lambda>kv. (ctx', span_SetAttributes sp [kv]))
                     (BlockListAttribute S C bs)
              else Inr (ctx', sp))
   \<and> Span_p0 T ctx c opn opts = tracer_Start T ctx (c @ ''.'' @ opn) opts
   \<and> SpanWithStringAttribute_p0 T ctx c opn k v
       = tracer_Start T ctx (c @ ''.'' @ opn) [WithAttributes [attribute_String k v]]
   \<and> SpanWithIntAttribute_p0 T ctx c opn k iv
       = tracer_Start T ctx (c @ ''.'' @ opn) [WithAttributes [attribute_Int k iv]]
   \<and> SpanWithPathAttribute_p0 T P ctx c opn p
       = (case tracer_Start T ctx (c @ ''.'' @ opn) [] of
            (ctx', sp) \<Rightarrow>
              if span_IsRecording sp
              then (ctx', span_SetAttributes sp [PathAttribute P p]) else (ctx', sp))
   \<and> SpanWithCidAttribute_p0 T S ctx c opn x
       = (case tracer_Start T ctx (c @ ''.'' @ opn) [] of
            (ctx', sp) \<Rightarrow>
              if span_IsRecording sp
              then (ctx', span_SetAttributes sp [CidAttribute S x]) else (ctx', sp))
   \<and> SpanWithCidListAttribute_p0 T S ctx c opn cs
       = (case tracer_Start T ctx (c @ ''.'' @ opn) [] of
            (ctx', sp) \<Rightarrow>
              if span_IsRecording sp
              then map_sum id (\<lambda>kv. (ctx', span_SetAttributes sp [kv])) (CidListAttribute S cs)
              else Inr (ctx', sp))
   \<and> SpanWithBlockAttribute_p0 T S C ctx c opn b
       = (case tracer_Start T ctx (c @ ''.'' @ opn) [] of
            (ctx', sp) \<Rightarrow>
              if span_IsRecording sp
              then (ctx', span_SetAttributes sp [BlockAttribute S C b]) else (ctx', sp))
   \<and> SpanWithBlockListAttribute_p0 T S C ctx c opn bs
       = (case tracer_Start T ctx (c @ ''.'' @ opn) [] of
            (ctx', sp) \<Rightarrow>
              if span_IsRecording sp
              then (if bs = [] then Inr (ctx', sp)
                    else map_sum id (\<lambda>kv. (ctx', span_SetAttributes sp [kv]))
                           (BlockListAttribute S C bs))
              else Inr (ctx', sp))
   \<and> span_name (snd (tracer_Start T ctx (c @ ''.'' @ opn) opts)) = c @ ''.'' @ opn
   \<and> span_name (span_SetAttributes sp0 kvs) = span_name sp0"
proof -
  have start: "Span T ctx c opn os = tracer_Start T ctx (c @ ''.'' @ opn) os" for os
    by (simp add: Span_def Sprintf_s_dot_s_def)
  have start0: "Span_p0 T ctx c opn os = tracer_Start T ctx (c @ ''.'' @ opn) os" for os
    by (simp add: Span_p0_def Sprintf_s_dot_s_def)
  have bind: "(case r of Inl e \<Rightarrow> Inl e | Inr kv \<Rightarrow> Inr (f kv)) = map_sum id f r"
    for r :: "panic + KeyValue" and f :: "KeyValue \<Rightarrow> 'z"
    by (cases r) simp_all
  have str: "SpanWithStringAttribute T ctx c opn k v
       = tracer_Start T ctx (c @ ''.'' @ opn) [WithAttributes [attribute_String k v]]"
    by (simp add: SpanWithStringAttribute_def start)
  have int: "SpanWithIntAttribute T ctx c opn k iv
       = tracer_Start T ctx (c @ ''.'' @ opn) [WithAttributes [attribute_Int k iv]]"
    by (simp add: SpanWithIntAttribute_def start)
  have path: "SpanWithPathAttribute T P ctx c opn p
       = (case tracer_Start T ctx (c @ ''.'' @ opn) [] of
            (ctx', sp) \<Rightarrow>
              if span_IsRecording sp
              then (ctx', span_SetAttributes sp [PathAttribute P p]) else (ctx', sp))"
    unfolding SpanWithPathAttribute_def start by simp
  have cid: "SpanWithCidAttribute T S ctx c opn x
       = (case tracer_Start T ctx (c @ ''.'' @ opn) [] of
            (ctx', sp) \<Rightarrow>
              if span_IsRecording sp
              then (ctx', span_SetAttributes sp [CidAttribute S x]) else (ctx', sp))"
    unfolding SpanWithCidAttribute_def CidAttribute_def start by simp
  have cids: "SpanWithCidListAttribute T S ctx c opn cs
       = (case tracer_Start T ctx (c @ ''.'' @ opn) [] of
            (ctx', sp) \<Rightarrow>
              if span_IsRecording sp
              then map_sum id (\<lambda>kv. (ctx', span_SetAttributes sp [kv])) (CidListAttribute S cs)
              else Inr (ctx', sp))"
    unfolding SpanWithCidListAttribute_def start bind by simp
  have block: "SpanWithBlockAttribute T S C ctx c opn b
       = (case tracer_Start T ctx (c @ ''.'' @ opn) [] of
            (ctx', sp) \<Rightarrow>
              if span_IsRecording sp
              then (ctx', span_SetAttributes sp [BlockAttribute S C b]) else (ctx', sp))"
    unfolding SpanWithBlockAttribute_def start by simp
  have blocks: "SpanWithBlockListAttribute T S C ctx c opn bs
       = (case tracer_Start T ctx (c @ ''.'' @ opn) [] of
            (ctx', sp) \<Rightarrow>
              if span_IsRecording sp
              then map_sum id (\<lambda>kv. (ctx', span_SetAttributes sp [kv]))
                     (BlockListAttribute S C bs)
              else Inr (ctx', sp))"
    unfolding SpanWithBlockListAttribute_def start bind by simp
  have str0: "SpanWithStringAttribute_p0 T ctx c opn k v
       = tracer_Start T ctx (c @ ''.'' @ opn) [WithAttributes [attribute_String k v]]"
    by (simp add: SpanWithStringAttribute_p0_def start0)
  have int0: "SpanWithIntAttribute_p0 T ctx c opn k iv
       = tracer_Start T ctx (c @ ''.'' @ opn) [WithAttributes [attribute_Int k iv]]"
    by (simp add: SpanWithIntAttribute_p0_def start0)
  have path0: "SpanWithPathAttribute_p0 T P ctx c opn p
       = (case tracer_Start T ctx (c @ ''.'' @ opn) [] of
            (ctx', sp) \<Rightarrow>
              if span_IsRecording sp
              then (ctx', span_SetAttributes sp [PathAttribute P p]) else (ctx', sp))"
    unfolding SpanWithPathAttribute_p0_def PathAttribute_def start0 by simp
  have cid0: "SpanWithCidAttribute_p0 T S ctx c opn x
       = (case tracer_Start T ctx (c @ ''.'' @ opn) [] of
            (ctx', sp) \<Rightarrow>
              if span_IsRecording sp
              then (ctx', span_SetAttributes sp [CidAttribute S x]) else (ctx', sp))"
    unfolding SpanWithCidAttribute_p0_def CidAttribute_def start0 by simp
  have cids0: "SpanWithCidListAttribute_p0 T S ctx c opn cs
       = (case tracer_Start T ctx (c @ ''.'' @ opn) [] of
            (ctx', sp) \<Rightarrow>
              if span_IsRecording sp
              then map_sum id (\<lambda>kv. (ctx', span_SetAttributes sp [kv])) (CidListAttribute S cs)
              else Inr (ctx', sp))"
    by (simp only: SpanWithCidListAttribute_p0_eq cids)
  have block0: "SpanWithBlockAttribute_p0 T S C ctx c opn b
       = (case tracer_Start T ctx (c @ ''.'' @ opn) [] of
            (ctx', sp) \<Rightarrow>
              if span_IsRecording sp
              then (ctx', span_SetAttributes sp [BlockAttribute S C b]) else (ctx', sp))"
    unfolding SpanWithBlockAttribute_p0_def BlockAttribute_def start0 by simp
  have blocks0: "SpanWithBlockListAttribute_p0 T S C ctx c opn bs
       = (case tracer_Start T ctx (c @ ''.'' @ opn) [] of
            (ctx', sp) \<Rightarrow>
              if span_IsRecording sp
              then (if bs = [] then Inr (ctx', sp)
                    else map_sum id (\<lambda>kv. (ctx', span_SetAttributes sp [kv]))
                           (BlockListAttribute S C bs))
              else Inr (ctx', sp))"
  proof (cases "bs = []")
    case True
    then show ?thesis
      by (simp add: SpanWithBlockListAttribute_p0_empty start split: prod.splits)
  next
    case False
    then show ?thesis
      by (simp add: SpanWithBlockListAttribute_p0_eq blocks split: prod.splits)
  qed
  have name: "span_name (snd (tracer_Start T ctx (c @ ''.'' @ opn) opts)) = c @ ''.'' @ opn
       \<and> span_name (span_SetAttributes sp0 kvs) = span_name sp0"
    by (simp add: tracer_Start_def span_SetAttributes_def)
  show ?thesis
    by (intro conjI start start0 str int path cid cids block blocks str0 int0 path0 cid0
        cids0 block0 blocks0 name [THEN conjunct1] name [THEN conjunct2])
qed

text \<open>
  C5. For a list of one to three items the summary is the canonical strings of all
  items joined by commas, with no suffix; a single item gives its canonical string alone.
\<close>

theorem short_list_summary:
  assumes "1 \<le> length cs" and "length cs \<le> 3" and "1 \<le> length bs" and "length bs \<le> 3"
  shows "CidListAttribute S cs = Inr (KeyValue ''cids'' (STRING (strings_Join (map S cs) '','')))
       \<and> BlockListAttribute S C bs
           = Inr (KeyValue ''blocks'' (STRING (strings_Join (map (\<lambda>b. S (C b)) bs) '','')))
       \<and> CidListAttribute S [x] = Inr (KeyValue ''cids'' (STRING (S x)))
       \<and> CidListAttribute S [x, y] = Inr (KeyValue ''cids'' (STRING (S x @ '','' @ S y)))
       \<and> CidListAttribute S [x, y, z]
           = Inr (KeyValue ''cids'' (STRING (S x @ '','' @ S y @ '','' @ S z)))
       \<and> BlockListAttribute S C [b] = Inr (KeyValue ''blocks'' (STRING (S (C b))))"
proof -
  from assms have "cs \<noteq> []" and "\<not> 3 < length cs" and "take 3 cs = cs"
    and "bs \<noteq> []" and "\<not> 3 < length bs" and "take 3 bs = bs"
    by auto
  then show ?thesis
    by (simp add: CidListAttribute_eq BlockListAttribute_eq attribute_String_def)
qed

theorem short_list_summary_witness:
  "1 \<le> length [''QmA'', ''QmB'', ''QmC''] \<and> length [''QmA'', ''QmB'', ''QmC''] \<le> 3
   \<and> 1 \<le> length [(''QmD'', ''data'')] \<and> length [(''QmD'', ''data'')] \<le> 3
   \<and> CidListAttribute (\<lambda>c. c) [''QmA'', ''QmB'', ''QmC'']
       = Inr (KeyValue ''cids'' (STRING ''QmA,QmB,QmC''))
   \<and> BlockListAttribute (\<lambda>c. c) fst [(''QmD'', ''data'')]
       = Inr (KeyValue ''blocks'' (STRING ''QmD''))"
  using short_list_summary [of "[''QmA'', ''QmB'', ''QmC'']" "[(''QmD'', ''data'')]" "\<lambda>c. c" fst]
  by simp

text \<open>
  C6. For a non-empty list the loop renders exactly the first \<open>min 3 n\<close> items, in
  their order in the list, and the attribute value is those strings joined, followed only
  by the count suffix. This holds for the standalone constructor and for the inline code
  of \<open>SpanWithCidListAttribute_p0\<close> on a recording span.
\<close>

theorem summary_renders_prefix_in_order:
  assumes "cs \<noteq> []" and "span_IsRecording (snd (Span_p0 T ctx c opn []))"
  shows "range_fill S cs (min 3 (length cs)) 0 (make_strings (min 3 (length cs)))
           = Inr (map S (take (min 3 (length cs)) cs))
       \<and> CidListAttribute S cs
           = Inr (KeyValue ''cids'' (STRING
               (strings_Join (map S (take (min 3 (length cs)) cs)) '','' @
                (if 3 < length cs then '' and '' @ decimal (length cs - 3) @ '' more'' else []))))
       \<and> map_sum id (\<lambda>r. set_attributes_calls (snd r)) (SpanWithCidListAttribute_p0 T S ctx c opn cs)
           = Inr [[KeyValue ''cids'' (STRING
               (strings_Join (map S (take (min 3 (length cs)) cs)) '','' @
                (if 3 < length cs then '' and '' @ decimal (length cs - 3) @ '' more'' else [])))]]"
proof -
  have loop: "range_fill S cs (min 3 (length cs)) 0 (make_strings (min 3 (length cs)))
           = Inr (map S (take (min 3 (length cs)) cs))"
    by (rule range_fill_make) simp
  have prefix: "take (min 3 (length cs)) cs = take 3 cs"
    by (simp add: min_def)
  have attr: "CidListAttribute S cs
           = Inr (KeyValue ''cids'' (STRING
               (strings_Join (map S (take (min 3 (length cs)) cs)) '','' @
                (if 3 < length cs then '' and '' @ decimal (length cs - 3) @ '' more'' else []))))"
    using assms(1)
    by (simp add: prefix CidListAttribute_eq attribute_String_def Sprintf_and_d_more_nat)
  have inline: "map_sum id (\<lambda>r. set_attributes_calls (snd r)) (SpanWithCidListAttribute_p0 T S ctx c opn cs)
           = Inr [[KeyValue ''cids'' (STRING
               (strings_Join (map S (take (min 3 (length cs)) cs)) '','' @
                (if 3 < length cs then '' and '' @ decimal (length cs - 3) @ '' more'' else [])))]]"
    using assms
    by (simp add: prefix SpanWithCidListAttribute_p0_eq SpanWithCidListAttribute_result
        Span_p0_result Span_result span_SetAttributes_def attribute_String_def
        Sprintf_and_d_more_nat)
  from loop attr inline show ?thesis by simp
qed

theorem summary_renders_prefix_in_order_witness:
  "[''QmA'', ''QmB'', ''QmC'', ''QmD'', ''QmE''] \<noteq> []
   \<and> span_IsRecording (snd (Span_p0 recording_tracer 0 ''bitswap'' ''GetBlocks'' []))
   \<and> range_fill (\<lambda>c. c) [''QmA'', ''QmB'', ''QmC'', ''QmD'', ''QmE''] 3 0 (make_strings 3)
       = Inr [''QmA'', ''QmB'', ''QmC'']
   \<and> map_sum id (\<lambda>r. set_attributes_calls (snd r))
       (SpanWithCidListAttribute_p0 recording_tracer (\<lambda>c. c) 0 ''bitswap'' ''GetBlocks''
          [''QmA'', ''QmB'', ''QmC'', ''QmD'', ''QmE''])
       = Inr [[KeyValue ''cids'' (STRING ''QmA,QmB,QmC and 2 more'')]]"
proof -
  have rec: "span_IsRecording (snd (Span_p0 recording_tracer 0 ''bitswap'' ''GetBlocks'' []))"
    by (simp add: Span_p0_result Span_result recording_tracer_def span_IsRecording_def)
  have ne: "[''QmA'', ''QmB'', ''QmC'', ''QmD'', ''QmE''] \<noteq> []" by simp
  show ?thesis
    using rec summary_renders_prefix_in_order [OF ne rec, of "\<lambda>c. c"]
    by (simp add: decimal.simps digit_char_def numeral_3_eq_3)
qed

text \<open>
  C8. On a recording span and the empty block list, \<open>SpanWithBlockListAttribute\<close> of
  src/tracing.go attaches the attribute \<open>''blocks''\<close> with value \<open>''empty list''\<close>,
  and the inline copy of src/unnamed/part_000 attaches nothing. Lemmas
  \<open>SpanWithCidListAttribute_p0_eq\<close> and \<open>SpanWithBlockListAttribute_p0_eq\<close> show that the
  two files agree on every cid list and on every non-empty block list.
\<close>

theorem SpanWithBlockListAttribute_copies_differ_on_empty_list:
  "map_sum id (\<lambda>r. attributes_received (snd r))
     (SpanWithBlockListAttribute recording_tracer (\<lambda>c. c) fst 0 ''bitswap'' ''GetBlocks''
        ([] :: (string \<times> string) list))
     = Inr [KeyValue ''blocks'' (STRING ''empty list'')]
   \<and> map_sum id (\<lambda>r. attributes_received (snd r))
     (SpanWithBlockListAttribute_p0 recording_tracer (\<lambda>c. c) fst 0 ''bitswap'' ''GetBlocks''
        ([] :: (string \<times> string) list))
     = Inr []"
  by (simp add: SpanWithBlockListAttribute_result SpanWithBlockListAttribute_p0_empty
      Span_result recording_tracer_def span_IsRecording_def span_SetAttributes_def
      attributes_received_def attribute_String_def)

text \<open>
  C9. The value of \<open>BlockListAttribute\<close> on a list of blocks is the value of
  \<open>CidListAttribute\<close> on the content addresses of those blocks, in the same order; the
  keys are \<open>''blocks''\<close> and \<open>''cids''\<close>.
\<close>

theorem block_list_value_is_cid_list_value:
  "map_sum id Value (BlockListAttribute S C bs) = map_sum id Value (CidListAttribute S (map C bs))
   \<and> map_sum id Key (BlockListAttribute S C bs) = Inr ''blocks''
   \<and> map_sum id Key (CidListAttribute S (map C bs)) = Inr ''cids''"
  by (simp add: BlockListAttribute_eq CidListAttribute_eq attribute_String_def take_map comp_def)

text \<open>
  C10. The list summarization never leaves its slices: with the bound the code computes,
  the smaller of 3 and the length, the loop returns its slice, and both list constructors
  return an attribute, for every input. The panic branch of an indexing is never taken.
\<close>

theorem list_summary_never_indexes_out_of_range:
  "(\<exists>cids. range_fill render xs (if 3 > length xs then length xs else 3) 0
              (make_strings (if 3 > length xs then length xs else 3)) = Inr cids)
   \<and> (\<exists>kv. CidListAttribute S cs = Inr kv)
   \<and> (\<exists>kv. BlockListAttribute S C bs = Inr kv)"
proof -
  have "(if 3 > length xs then length xs else 3) \<le> length xs" by simp
  then have "\<exists>cids. range_fill render xs (if 3 > length xs then length xs else 3) 0
              (make_strings (if 3 > length xs then length xs else 3)) = Inr cids"
    using range_fill_make by blast
  then show ?thesis
    by (simp add: CidListAttribute_eq BlockListAttribute_eq)
qed

end
